theory Spec2Isabelle
  imports Complex_Main "HOL-Library.Product_Lexorder" "HOL-Library.Multiset"
begin

section \<open>The recommendation view of the book backend\<close>

text \<open>
  This theory embeds \<^verbatim>\<open>recommended_books\<close> of
  \<^verbatim>\<open>Book_recommendation/backend/books/views.py\<close> (lines 170 to 277) together with
  the two model classes it reads (\<^verbatim>\<open>books/models.py\<close>).

  Conventions of the embedding.
  \<^item> A Python float is modelled by the real number it denotes, and every arithmetic
    operation on floats rounds its exact result to the nearest double, ties to even
    (\<open>rnd\<close>, with gradual underflow). NaN and the infinities are not modelled; no
    operation of the view can overflow on finite inputs.
  \<^item> A nullable attribute is an \<^typ>\<open>'a option\<close>, \<^const>\<open>None\<close> being Python's
    \<^verbatim>\<open>None\<close>. The view guards most attribute reads with \<^verbatim>\<open>x or default\<close>, so
    the model keeps the attributes nullable although the columns are declared without
    \<^verbatim>\<open>null=True\<close>.
  \<^item> The catalogue is the list of \<^verbatim>\<open>Book\<close> rows in the order in which the database
    returns them; every query of one request sees the same rows in the same order.
  \<^item> A Python \<^verbatim>\<open>str\<close> is a \<^typ>\<open>string\<close>; case folding and white space are
    modelled on ASCII.
\<close>

subsection \<open>Data\<close>

text \<open>A JSON value, as a \<^verbatim>\<open>JSONField\<close> holds it after decoding.\<close>

datatype json =
    JNull
  | JBool bool
  | JNum real
  | JStr string
  | JList "json list"
  | JDict "(string \<times> json) list"

text \<open>The attributes of \<^verbatim>\<open>Book\<close> that the view reads.\<close>

record book =
  book_id :: int
  author :: "string option"
  rating :: "real option"
  liked_percentage :: "real option"
  genres :: json
  language :: "string option"

text \<open>
  The attributes of \<^verbatim>\<open>User\<close> that the view reads; \<open>favorite_genres\<close> is the result of
  \<^verbatim>\<open>user.favorite_genres.values_list('name', flat=True)\<close>.
\<close>

record user =
  favorite_genres :: "string list"
  preferred_language :: "string option"
  saved_book_ids :: "int list option"

datatype error = TypeError

subsection \<open>Strings\<close>

definition lower_char :: "char \<Rightarrow> char" where
  "lower_char c =
     (let n = (of_char c :: nat) in if 65 \<le> n \<and> n \<le> 90 then char_of (n + 32) else c)"

definition lower :: "string \<Rightarrow> string" where
  "lower s = map lower_char s"

definition is_space :: "char \<Rightarrow> bool" where
  "is_space c = (let n = (of_char c :: nat) in (9 \<le> n \<and> n \<le> 13) \<or> (28 \<le> n \<and> n \<le> 32))"

definition strip :: "string \<Rightarrow> string" where
  "strip s = rev (dropWhile is_space (rev (dropWhile is_space s)))"

definition is_digit :: "char \<Rightarrow> bool" where
  "is_digit c = (let n = (of_char c :: nat) in 48 \<le> n \<and> n \<le> 57)"

text \<open>
  The white space that \<^verbatim>\<open>int\<close> skips around an ASCII literal is that of C
  (\<^verbatim>\<open>isspace\<close>): unlike \<^verbatim>\<open>str.strip\<close> it does not include the separators 28 to 31.
\<close>

definition is_c_space :: "char \<Rightarrow> bool" where
  "is_c_space c = (let n = (of_char c :: nat) in (9 \<le> n \<and> n \<le> 13) \<or> n = 32)"

definition c_strip :: "string \<Rightarrow> string" where
  "c_strip s = rev (dropWhile is_c_space (rev (dropWhile is_c_space s)))"

text \<open>
  The digits of a decimal literal, single underscores allowed between digits;
  \<open>prev\<close> tells whether the character just read was a digit.
\<close>

fun py_digits :: "string \<Rightarrow> bool \<Rightarrow> int \<Rightarrow> int option" where
  "py_digits [] prev acc = (if prev then Some acc else None)"
| "py_digits (c # cs) prev acc =
     (if is_digit c then py_digits cs True (10 * acc + ((of_char c :: int) - 48))
      else if c = CHR ''_'' \<and> prev then py_digits cs False acc
      else None)"

text \<open>
  Python's \<^verbatim>\<open>int(s)\<close> on an ASCII string: \<^const>\<open>None\<close> is the \<^verbatim>\<open>ValueError\<close>.
  Since CPython 3.11 a literal of more than 4300 digits is refused as well.
\<close>

definition py_int :: "string \<Rightarrow> int option" where
  "py_int s =
     (case c_strip s of
        [] \<Rightarrow> None
      | c # cs \<Rightarrow>
          (let body = (if c = CHR ''-'' \<or> c = CHR ''+'' then cs else c # cs)
           in if 4300 < length (filter is_digit body) then None
              else if c = CHR ''-'' then map_option uminus (py_digits body False 0)
              else py_digits body False 0))"

subsection \<open>The page size (lines 186 to 191)\<close>

text \<open>
  \<open>q\<close> is \<^verbatim>\<open>request.GET.get('limit')\<close>: \<^const>\<open>None\<close> when the query string has no
  such parameter, in which case the default 4 is converted.
\<close>

definition requested_limit :: "string option \<Rightarrow> int" where
  "requested_limit q =
     (case q of
        None \<Rightarrow> 4
      | Some s \<Rightarrow> (case py_int s of Some n \<Rightarrow> n | None \<Rightarrow> 4))"

definition effective_limit :: "string option \<Rightarrow> int" where
  "effective_limit q = max 1 (min (requested_limit q) 24)"

subsection \<open>User signals (lines 193 to 208)\<close>

text \<open>\<^verbatim>\<open>x or 0.0\<close> and \<^verbatim>\<open>x or ''\<close>.\<close>

definition or_zero :: "real option \<Rightarrow> real" where
  "or_zero x = (case x of None \<Rightarrow> 0 | Some r \<Rightarrow> if r = 0 then 0 else r)"

definition or_empty :: "string option \<Rightarrow> string" where
  "or_empty x = (case x of None \<Rightarrow> [] | Some s \<Rightarrow> s)"

text \<open>
  The string members met when iterating over \<^verbatim>\<open>genres or []\<close>. A falsy value
  iterates as the empty list; a number or \<^verbatim>\<open>True\<close> is not iterable and the
  \<^verbatim>\<open>TypeError\<close> is swallowed by the surrounding \<^verbatim>\<open>try\<close>; a string iterates over
  its characters and a dictionary over its keys.
\<close>

fun str_genres :: "json \<Rightarrow> string set" where
  "str_genres JNull = {}"
| "str_genres (JBool b) = {}"
| "str_genres (JNum x) = {}"
| "str_genres (JStr s) = set (map (\<lambda>c. [c]) s)"
| "str_genres (JList xs) = set (concat (map (\<lambda>j. case j of JStr s \<Rightarrow> [s] | _ \<Rightarrow> []) xs))"
| "str_genres (JDict kvs) = set (map fst kvs)"

definition saved_ids :: "user \<Rightarrow> int set" where
  "saved_ids u = set (case saved_book_ids u of None \<Rightarrow> [] | Some xs \<Rightarrow> xs)"

text \<open>\<^verbatim>\<open>Book.objects.filter(id__in=ids)\<close> and \<^verbatim>\<open>Book.objects.exclude(id__in=ids)\<close>.\<close>

definition objects_filter :: "book list \<Rightarrow> int set \<Rightarrow> book list" where
  "objects_filter catalog ids = filter (\<lambda>b. book_id b \<in> ids) catalog"

definition objects_exclude :: "book list \<Rightarrow> int set \<Rightarrow> book list" where
  "objects_exclude catalog ids = filter (\<lambda>b. book_id b \<notin> ids) catalog"

definition saved_books_list :: "user \<Rightarrow> book list \<Rightarrow> book list" where
  "saved_books_list u catalog =
     (if saved_ids u = {} then [] else objects_filter catalog (saved_ids u))"

definition saved_authors :: "user \<Rightarrow> book list \<Rightarrow> string set" where
  "saved_authors u catalog =
     set (concat (map (\<lambda>b. case author b of None \<Rightarrow> [] | Some a \<Rightarrow> if a = [] then [] else [a])
                      (saved_books_list u catalog)))"

definition saved_genres_union :: "user \<Rightarrow> book list \<Rightarrow> string set" where
  "saved_genres_union u catalog =
     fold (\<lambda>sb acc. acc \<union> str_genres (genres sb)) (saved_books_list u catalog) {}"

definition user_language :: "user \<Rightarrow> string" where
  "user_language u = lower (strip (or_empty (preferred_language u)))"

subsection \<open>Double precision arithmetic\<close>

text \<open>
  \<open>expo x\<close> is the binary exponent of a positive \<open>x\<close>: \<open>pow2 (expo x) \<le> x < pow2 (expo x + 1)\<close>.
\<close>

function expo :: "real \<Rightarrow> int" where
  "expo x =
     (if x \<le> 0 then 0
      else if 2 \<le> x then expo (x / 2) + 1
      else if x < 1 then expo (x * 2) - 1
      else 0)"
  by pat_completeness auto
termination
proof (relation "measure (\<lambda>x. if x \<le> 0 \<or> (1 \<le> x \<and> x < 2) then 0
                                 else nat \<lfloor>\<bar>log 2 x\<bar>\<rfloor> + 1)")
  show "wf (measure (\<lambda>x. if x \<le> 0 \<or> (1 \<le> x \<and> x < 2) then 0
                                 else nat \<lfloor>\<bar>log 2 x\<bar>\<rfloor> + 1))"
    by simp
next
  fix x :: real
  assume a: "\<not> x \<le> 0" "2 \<le> x"
  have l: "log 2 (x / 2) = log 2 x - 1"
    using a by (simp add: log_divide)
  have "1 \<le> log 2 x"
    using a by (simp add: le_log_iff)
  then have "nat \<lfloor>\<bar>log 2 x - 1\<bar>\<rfloor> < nat \<lfloor>\<bar>log 2 x\<bar>\<rfloor>"
    by (simp add: nat_less_iff)
  then show "(x / 2, x) \<in> measure (\<lambda>x. if x \<le> 0 \<or> (1 \<le> x \<and> x < 2) then 0
                                 else nat \<lfloor>\<bar>log 2 x\<bar>\<rfloor> + 1)"
    using a by (simp add: l)
next
  fix x :: real
  assume a: "\<not> x \<le> 0" "\<not> 2 \<le> x" "x < 1"
  have l: "log 2 (x * 2) = log 2 x + 1"
    using a by (simp add: log_mult)
  have n: "log 2 x < 0"
    using a by simp
  have "x * 2 < 1 \<Longrightarrow> nat \<lfloor>\<bar>log 2 x + 1\<bar>\<rfloor> < nat \<lfloor>\<bar>log 2 x\<bar>\<rfloor>"
  proof -
    assume "x * 2 < 1"
    then have "log 2 (x * 2) < 0"
      using a by simp
    then have "log 2 x + 1 < 0"
      by (simp only: l)
    then show ?thesis
      by (simp add: nat_less_iff)
  qed
  then show "(x * 2, x) \<in> measure (\<lambda>x. if x \<le> 0 \<or> (1 \<le> x \<and> x < 2) then 0
                                 else nat \<lfloor>\<bar>log 2 x\<bar>\<rfloor> + 1)"
    using a by (auto simp: l)
qed

declare expo.simps [simp del]


text \<open>Powers of two, and rounding to the nearest integer with ties to even.\<close>

definition pow2 :: "int \<Rightarrow> real" where
  "pow2 e = (if 0 \<le> e then 2 ^ nat e else 1 / 2 ^ nat (- e))"

definition rhe :: "real \<Rightarrow> int" where
  "rhe x =
     (let f = \<lfloor>x\<rfloor>; d = x - of_int f
      in if d < 1 / 2 then f else if 1 / 2 < d then f + 1 else if even f then f else f + 1)"

text \<open>
  A double has 53 significant bits and exponents from -1022 on: the unit in the last
  place of a positive \<open>x\<close> is \<open>pow2 (binade x)\<close>, and \<open>rnd x\<close> is the multiple of that
  unit nearest to \<open>x\<close>. The operators \<^verbatim>\<open>+\<close>, \<^verbatim>\<open>*\<close> and \<^verbatim>\<open>/\<close> on floats round the
  exact result; a float literal denotes the rounding of its decimal value.
\<close>

definition binade :: "real \<Rightarrow> int" where
  "binade x = max (expo x) (- 1022) - 52"

definition rnd_pos :: "real \<Rightarrow> real" where
  "rnd_pos x = of_int (rhe (x / pow2 (binade x))) * pow2 (binade x)"

definition rnd :: "real \<Rightarrow> real" where
  "rnd x = (if x = 0 then 0 else if 0 < x then rnd_pos x else - rnd_pos (- x))"

definition fadd :: "real \<Rightarrow> real \<Rightarrow> real" where
  "fadd x y = rnd (x + y)"

definition fmul :: "real \<Rightarrow> real \<Rightarrow> real" where
  "fmul x y = rnd (x * y)"

definition fdiv :: "real \<Rightarrow> real \<Rightarrow> real" where
  "fdiv x y = rnd (x / y)"


subsection \<open>Helpers and score (lines 210 to 249)\<close>

text \<open>
  \<open>jaccard\<close> is the quotient of line 216 as a real number; the double that the
  division returns is its rounding, taken where the result becomes a signal.
\<close>

definition jaccard :: "string set \<Rightarrow> string set \<Rightarrow> real" where
  "jaccard a b =
     (if a = {} \<and> b = {} then 0
      else (let inter = a \<inter> b; union = a \<union> b
            in if union = {} then 0 else real (card inter) / real (card union)))"

definition clamp01 :: "real option \<Rightarrow> real" where
  "clamp01 x = (case x of None \<Rightarrow> 0 | Some r \<Rightarrow> max 0 (min 1 r))"

definition fav_genre_sim :: "user \<Rightarrow> book \<Rightarrow> real" where
  "fav_genre_sim u b =
     (if set (favorite_genres u) = {} then 0
      else rnd (jaccard (set (favorite_genres u)) (str_genres (genres b))))"

definition saved_genre_sim :: "user \<Rightarrow> book list \<Rightarrow> book \<Rightarrow> real" where
  "saved_genre_sim u catalog b =
     (if saved_genres_union u catalog = {} then 0
      else rnd (jaccard (saved_genres_union u catalog) (str_genres (genres b))))"

definition author_match :: "user \<Rightarrow> book list \<Rightarrow> book \<Rightarrow> real" where
  "author_match u catalog b =
     (case author b of
        None \<Rightarrow> 0
      | Some a \<Rightarrow> if a = [] then 0 else if a \<in> saved_authors u catalog then 1 else 0)"

definition rating_norm :: "book \<Rightarrow> real" where
  "rating_norm b = clamp01 (Some (fdiv (or_zero (rating b)) 5))"

definition liked_norm :: "book \<Rightarrow> real" where
  "liked_norm b = clamp01 (Some (fdiv (or_zero (liked_percentage b)) 100))"

definition lang_match :: "user \<Rightarrow> book \<Rightarrow> real" where
  "lang_match u b =
     (if user_language u = [] then 0
      else if lower (strip (or_empty (language b))) = user_language u then 1 else 0)"

text \<open>
  The weighted sum of lines 241 to 248: six products, added from left to right.
\<close>

definition score :: "user \<Rightarrow> book list \<Rightarrow> book \<Rightarrow> real" where
  "score u catalog b =
     fadd (fadd (fadd (fadd (fadd
       (fmul (rnd 0.40) (fav_genre_sim u b))
       (fmul (rnd 0.20) (saved_genre_sim u catalog b)))
       (fmul (rnd 0.15) (author_match u catalog b)))
       (fmul (rnd 0.15) (rating_norm b)))
       (fmul (rnd 0.05) (liked_norm b)))
       (fmul (rnd 0.05) (lang_match u b))"

subsection \<open>Sorting (lines 254 to 262 and 269 to 273)\<close>

text \<open>
  \<^verbatim>\<open>sorted(xs, key=key, reverse=True)\<close>: descending and stable, elements of equal key
  keep the order they have in \<open>xs\<close>.
\<close>

definition sorted_desc :: "('a \<Rightarrow> 'k::linorder) \<Rightarrow> 'a list \<Rightarrow> 'a list" where
  "sorted_desc key xs = rev (sort_key key (rev xs))"

definition fallback_key :: "book \<Rightarrow> real \<times> real" where
  "fallback_key b = (or_zero (rating b), or_zero (liked_percentage b))"

text \<open>
  The key of line 262 is \<^verbatim>\<open>(score, rating)\<close> with the raw attribute: comparing two
  such tuples of equal score compares the ratings, and \<^verbatim>\<open>None < 3.0\<close> raises
  \<^verbatim>\<open>TypeError\<close>. Two keys clash when their comparison would raise. Which pairs a sort
  compares is up to the runtime; the model raises as soon as the list holds a clashing
  pair (with two elements that pair is compared for certain), and on a list without one
  the order between \<^verbatim>\<open>None\<close> and a number is never consulted.
\<close>

definition scored_key :: "real \<times> book \<Rightarrow> real \<times> real option" where
  "scored_key t = (fst t, rating (snd t))"

definition key_clash :: "real \<times> real option \<Rightarrow> real \<times> real option \<Rightarrow> bool" where
  "key_clash k k' = (fst k = fst k' \<and> snd k \<noteq> snd k' \<and> (snd k = None \<or> snd k' = None))"

definition has_clash :: "(real \<times> book) list \<Rightarrow> bool" where
  "has_clash scored =
     list_ex (\<lambda>t. list_ex (\<lambda>t'. key_clash (scored_key t) (scored_key t')) scored) scored"

definition total_key :: "real \<times> book \<Rightarrow> real \<times> real" where
  "total_key t = (fst t, case rating (snd t) of None \<Rightarrow> 0 | Some r \<Rightarrow> r)"

definition sort_scored :: "(real \<times> book) list \<Rightarrow> error + (real \<times> book) list" where
  "sort_scored scored =
     (if has_clash scored then Inl TypeError else Inr (sorted_desc total_key scored))"

subsection \<open>The view\<close>

definition no_signals :: "user \<Rightarrow> bool" where
  "no_signals u = (set (favorite_genres u) = {} \<and> saved_ids u = {})"

definition candidates :: "user \<Rightarrow> book list \<Rightarrow> book list" where
  "candidates u catalog = objects_exclude catalog (saved_ids u)"

definition filler_candidates :: "user \<Rightarrow> book list \<Rightarrow> book list \<Rightarrow> book list" where
  "filler_candidates u catalog books =
     objects_exclude catalog (saved_ids u \<union> book_id ` set books)"

definition backfill :: "user \<Rightarrow> book list \<Rightarrow> nat \<Rightarrow> book list \<Rightarrow> book list" where
  "backfill u catalog limit books =
     (if length books < limit then
        (let needed = limit - length books;
             filler_sorted = sorted_desc fallback_key (filler_candidates u catalog books)
         in books @ take needed filler_sorted)
      else books)"

definition scored_list :: "user \<Rightarrow> book list \<Rightarrow> (real \<times> book) list" where
  "scored_list u catalog = map (\<lambda>b. (score u catalog b, b)) (candidates u catalog)"

text \<open>
  The result is the list of rows handed to the serializer, or the exception that leaves
  the view. The scored list is built before the branch (as in the source) and only
  sorted when the user has a signal.
\<close>

definition recommended_books :: "user \<Rightarrow> book list \<Rightarrow> string option \<Rightarrow> error + book list" where
  "recommended_books u catalog q =
     (let limit = nat (effective_limit q);
          scored = scored_list u catalog
      in if no_signals u then
           (let fallback_candidates = objects_exclude catalog (saved_ids u);
                fallback_sorted = sorted_desc fallback_key fallback_candidates
            in Inr (take limit fallback_sorted))
         else
           (case sort_scored scored of
              Inl e \<Rightarrow> Inl e
            | Inr ranked \<Rightarrow> Inr (backfill u catalog limit (map snd (take limit ranked)))))"

text \<open>
  The same view with lines 265 to 274 (the filler) removed; used to state that the
  filler never contributes.
\<close>

definition recommended_books_no_backfill ::
  "user \<Rightarrow> book list \<Rightarrow> string option \<Rightarrow> error + book list" where
  "recommended_books_no_backfill u catalog q =
     (let limit = nat (effective_limit q);
          scored = scored_list u catalog
      in if no_signals u then
           (let fallback_candidates = objects_exclude catalog (saved_ids u);
                fallback_sorted = sorted_desc fallback_key fallback_candidates
            in Inr (take limit fallback_sorted))
         else
           (case sort_scored scored of
              Inl e \<Rightarrow> Inl e
            | Inr ranked \<Rightarrow> Inr (map snd (take limit ranked))))"

text \<open>Every candidate has a rating, as the non-null column of the schema guarantees.\<close>

definition rated :: "book list \<Rightarrow> bool" where
  "rated books = list_all (\<lambda>b. rating b \<noteq> None) books"

subsection \<open>Example data\<close>

text \<open>
  The user and the two books of the concrete scenario of the specification; the scenario
  leaves the authors open, so they are parameters.
\<close>

definition scenario_user :: user where
  "scenario_user =
     \<lparr>favorite_genres = [''Fantasy''], preferred_language = Some ''English'',
      saved_book_ids = Some []\<rparr>"

definition scenario_book1 :: "string option \<Rightarrow> book" where
  "scenario_book1 a =
     \<lparr>book_id = 1, author = a, rating = Some 4, liked_percentage = Some 90,
      genres = JList [JStr ''Fantasy''], language = Some ''English''\<rparr>"

definition scenario_book2 :: "string option \<Rightarrow> book" where
  "scenario_book2 a =
     \<lparr>book_id = 2, author = a, rating = Some 5, liked_percentage = Some 95,
      genres = JList [JStr ''Romance''], language = Some ''English''\<rparr>"

text \<open>A third book, a user who has saved book 2, and a user without any signal.\<close>

definition scenario_book3 :: book where
  "scenario_book3 =
     \<lparr>book_id = 3, author = Some ''Le Guin'', rating = Some 3, liked_percentage = Some 50,
      genres = JList [JStr ''Fantasy'', JStr ''Romance''], language = Some ''German''\<rparr>"

definition shelf :: "book list" where
  "shelf = [scenario_book1 None, scenario_book2 None, scenario_book3]"

text \<open>Two books that differ only in id and rating: no rating, and the rating 0.\<close>

definition unrated_book :: book where
  "unrated_book =
     \<lparr>book_id = 4, author = Some ''Anon'', rating = None, liked_percentage = Some 50,
      genres = JList [JStr ''Essay''], language = Some ''English''\<rparr>"

definition zero_rated_book :: book where
  "zero_rated_book =
     \<lparr>book_id = 5, author = Some ''Anon'', rating = Some 0, liked_percentage = Some 50,
      genres = JList [JStr ''Essay''], language = Some ''English''\<rparr>"

text \<open>A user and a book for which all six signals are 1; the user saved book 1.\<close>

definition devotee :: user where
  "devotee =
     \<lparr>favorite_genres = [''Fantasy''], preferred_language = Some ''English'',
      saved_book_ids = Some [1]\<rparr>"

definition perfect_book :: book where
  "perfect_book =
     \<lparr>book_id = 6, author = Some ''Tolkien'', rating = Some 5, liked_percentage = Some 100,
      genres = JList [JStr ''Fantasy''], language = Some ''English''\<rparr>"

definition library :: "book list" where
  "library = [scenario_book1 (Some ''Tolkien''), perfect_book]"

definition reader :: user where
  "reader =
     \<lparr>favorite_genres = [''Fantasy''], preferred_language = Some ''English'',
      saved_book_ids = Some [2]\<rparr>"

definition newcomer :: user where
  "newcomer =
     \<lparr>favorite_genres = [], preferred_language = Some ''English'',
      saved_book_ids = None\<rparr>"

text \<open>
  Following the words of the specification: \<open>a\<close> may stand before \<open>b\<close> in a list
  sorted by (rating, liked percentage) descending. A null attribute counts as 0, as in
  the sort key of the view.
\<close>

definition rating_liked_desc :: "book \<Rightarrow> book \<Rightarrow> bool" where
  "rating_liked_desc a b =
     (or_zero (rating b) < or_zero (rating a)
      \<or> (or_zero (rating b) = or_zero (rating a)
          \<and> or_zero (liked_percentage b) \<le> or_zero (liked_percentage a)))"

section \<open>Auxiliary facts\<close>

lemma effective_limit_range: "1 \<le> effective_limit q \<and> effective_limit q \<le> 24"
  by (simp add: effective_limit_def)


subsection \<open>Descending stable sort\<close>

lemma mset_sorted_desc: "mset (sorted_desc k xs) = mset xs"
  by (simp add: sorted_desc_def)

lemma sorted_wrt_sorted_desc: "sorted_wrt (\<lambda>a b. k b \<le> k a) (sorted_desc k xs)"
proof -
  have "sorted (map k (sort_key k (rev xs)))"
    by (rule sorted_sort_key)
  then have "sorted_wrt (\<lambda>a b. k a \<le> k b) (sort_key k (rev xs))"
    by (simp add: sorted_map)
  then show ?thesis
    by (simp add: sorted_desc_def sorted_wrt_rev)
qed

lemma stable_sorted_desc:
  "filter (\<lambda>x. k x = v) (sorted_desc k xs) = filter (\<lambda>x. k x = v) xs"
proof -
  have "filter (\<lambda>x. k x = v) (sort_key k (rev xs)) = filter (\<lambda>x. k x = v) (rev xs)"
    by (rule sort_key_stable)
  then show ?thesis
    by (simp add: sorted_desc_def rev_filter [symmetric])
qed

subsection \<open>The scored list and the filler\<close>

lemma map_snd_scored_list: "map snd (scored_list u catalog) = candidates u catalog"
  by (simp add: scored_list_def comp_def)

lemma sort_scored_mset: "sort_scored scored = Inr ranked \<Longrightarrow> mset ranked = mset scored"
  by (auto simp: sort_scored_def mset_sorted_desc split: if_splits)

lemma ranked_candidates:
  assumes "sort_scored (scored_list u catalog) = Inr ranked"
  shows "mset (map snd ranked) = mset (candidates u catalog)"
proof -
  have "mset (map snd ranked) = mset (map snd (scored_list u catalog))"
    using sort_scored_mset [OF assms] by (metis mset_map)
  then show ?thesis
    by (simp only: map_snd_scored_list)
qed

lemma exclude_all_ids:
  "objects_exclude catalog (ids \<union> book_id ` set (objects_exclude catalog ids)) = []"
  by (auto simp: objects_exclude_def filter_empty_conv)

lemma filler_empty:
  assumes "mset ys = mset (candidates u catalog)" and "length (take limit ys) < limit"
  shows "filler_candidates u catalog (take limit ys) = []"
proof -
  from assms(2) have "take limit ys = ys" by simp
  moreover have "set ys = set (candidates u catalog)"
    using assms(1) by (rule mset_eq_setD)
  ultimately show ?thesis
    by (simp add: filler_candidates_def candidates_def exclude_all_ids)
qed

lemma backfill_noop:
  assumes "mset ys = mset (candidates u catalog)"
  shows "backfill u catalog limit (take limit ys) = take limit ys"
proof (cases "length (take limit ys) < limit")
  case False
  then show ?thesis by (simp add: backfill_def)
next
  case True
  have "backfill u catalog limit (take limit ys) =
          take limit ys @ take (limit - length (take limit ys)) (sorted_desc fallback_key [])"
    unfolding backfill_def Let_def filler_empty [OF assms True] using True
    by (simp only: if_True)
  then show ?thesis
    by (simp add: sorted_desc_def)
qed

lemma recommended_books_unfold:
  "recommended_books u catalog q =
     (if no_signals u
      then Inr (take (nat (effective_limit q)) (sorted_desc fallback_key (candidates u catalog)))
      else case sort_scored (scored_list u catalog) of
             Inl e \<Rightarrow> Inl e
           | Inr ranked \<Rightarrow> Inr (take (nat (effective_limit q)) (map snd ranked)))"
proof -
  have "backfill u catalog limit (map snd (take limit ranked)) = take limit (map snd ranked)"
    if "sort_scored (scored_list u catalog) = Inr ranked" for ranked limit
    using backfill_noop [OF ranked_candidates [OF that], of limit] by (simp add: take_map)
  then show ?thesis
    by (simp add: recommended_books_def Let_def candidates_def split: sum.split)
qed

lemma recommended_books_shape:
  assumes "recommended_books u catalog q = Inr out"
  shows "\<exists>ys. mset ys = mset (candidates u catalog) \<and> out = take (nat (effective_limit q)) ys"
proof (cases "no_signals u")
  case True
  with assms have "out = take (nat (effective_limit q)) (sorted_desc fallback_key (candidates u catalog))"
    by (simp add: recommended_books_unfold)
  then show ?thesis
    using mset_sorted_desc by blast
next
  case False
  with assms obtain ranked where r: "sort_scored (scored_list u catalog) = Inr ranked"
    and o: "out = take (nat (effective_limit q)) (map snd ranked)"
    by (auto simp: recommended_books_unfold split: sum.splits)
  from ranked_candidates [OF r] o show ?thesis by blast
qed

text \<open>Without a null rating among the candidates the tie-break never raises.\<close>

lemma rated_no_clash: "rated (candidates u catalog) \<Longrightarrow> \<not> has_clash (scored_list u catalog)"
  by (auto simp: rated_def has_clash_def key_clash_def scored_key_def scored_list_def
      list_ex_iff list_all_iff)

lemma rated_returns:
  assumes "rated (candidates u catalog)"
  shows "\<exists>ys. mset ys = mset (candidates u catalog) \<and>
              recommended_books u catalog q = Inr (take (nat (effective_limit q)) ys)"
proof (cases "no_signals u")
  case True
  then show ?thesis
    using mset_sorted_desc by (auto simp: recommended_books_unfold)
next
  case False
  have r: "sort_scored (scored_list u catalog) = Inr (sorted_desc total_key (scored_list u catalog))"
    using rated_no_clash [OF assms] by (simp add: sort_scored_def)
  have "recommended_books u catalog q =
          Inr (take (nat (effective_limit q)) (map snd (sorted_desc total_key (scored_list u catalog))))"
    using False r by (simp add: recommended_books_unfold)
  with ranked_candidates [OF r] show ?thesis by blast
qed

subsection \<open>Double precision arithmetic: facts\<close>

text \<open>Powers of two.\<close>

lemma pow2_powr: "pow2 e = 2 powr (of_int e)"
proof (cases "0 \<le> e")
  case True
  then have "2 powr (of_int e) = (2::real) powr (real (nat e))"
    by simp
  also have "\<dots> = 2 ^ nat e"
    by (rule powr_realpow) simp
  finally show ?thesis
    using True by (simp add: pow2_def)
next
  case False
  then have "2 powr (of_int e) = (2::real) powr (- real (nat (- e)))"
    by simp
  also have "\<dots> = 1 / 2 powr (real (nat (- e)))"
    by (simp add: powr_minus_divide)
  also have "2 powr (real (nat (- e))) = (2::real) ^ nat (- e)"
    by (rule powr_realpow) simp
  finally show ?thesis
    using False by (simp add: pow2_def)
qed

lemma pow2_pos: "0 < pow2 e"
  by (simp add: pow2_powr)

lemma pow2_add: "pow2 (a + b) = pow2 a * pow2 b"
  by (simp add: pow2_powr powr_add)

lemma pow2_mono: "a \<le> b \<Longrightarrow> pow2 a \<le> pow2 b"
  by (simp add: pow2_powr)

lemma pow2_less_iff: "pow2 a < pow2 b \<longleftrightarrow> a < b"
  by (simp add: pow2_powr)

lemma pow2_1: "pow2 1 = 2"
  by (simp add: pow2_def)

lemma pow2_Suc: "pow2 (e + 1) = 2 * pow2 e"
  using pow2_add [of e 1] by (simp only: pow2_1 mult.commute)

lemma pow2_52: "pow2 52 = of_int (2 ^ 52)"
  by (simp add: pow2_def)

lemma pow2_53: "pow2 53 = of_int (2 ^ 53)"
  by (simp add: pow2_def)

text \<open>The exponent.\<close>

lemma expo_bounds: "0 < x \<Longrightarrow> pow2 (expo x) \<le> x \<and> x < pow2 (expo x + 1)"
proof (induction x rule: expo.induct)
  case (1 x)
  consider "2 \<le> x" | "x < 1" | "1 \<le> x" "x < 2"
    by linarith
  then show ?case
  proof cases
    case 1
    with "1.prems" have e: "expo x = expo (x / 2) + 1"
      by (subst expo.simps) simp
    from "1.IH"(1) "1.prems" 1 have "pow2 (expo (x / 2)) \<le> x / 2 \<and> x / 2 < pow2 (expo (x / 2) + 1)"
      by simp
    then show ?thesis
      unfolding e pow2_Suc [of "expo (x / 2) + 1"] pow2_Suc [of "expo (x / 2)"] by linarith
  next
    case 2
    with "1.prems" have e: "expo x = expo (x * 2) - 1"
      by (subst expo.simps) simp
    have p: "pow2 (expo (x * 2)) = 2 * pow2 (expo (x * 2) - 1)"
      using pow2_Suc [of "expo (x * 2) - 1"] by simp
    from "1.IH"(2) "1.prems" 2 have "pow2 (expo (x * 2)) \<le> x * 2 \<and> x * 2 < pow2 (expo (x * 2) + 1)"
      by simp
    then have "pow2 (expo (x * 2) - 1) \<le> x \<and> x < pow2 (expo (x * 2))"
      unfolding pow2_Suc p by linarith
    then show ?thesis
      unfolding e by simp
  next
    case 3
    then have "expo x = 0"
      by (subst expo.simps) simp
    with 3 show ?thesis
      by (simp add: pow2_def)
  qed
qed

lemma expo_mono:
  assumes "0 < x" and "x \<le> y"
  shows "expo x \<le> expo y"
proof -
  have y: "0 < y"
    using assms by linarith
  have "pow2 (expo x) < pow2 (expo y + 1)"
    using expo_bounds [OF assms(1)] expo_bounds [OF y] assms(2) by linarith
  then show ?thesis
    by (simp add: pow2_less_iff)
qed

lemma expo_base: "1 \<le> x \<Longrightarrow> x < 2 \<Longrightarrow> expo x = 0"
  by (subst expo.simps) simp

lemma expo_halve: "2 \<le> x \<Longrightarrow> expo x = expo (x / 2) + 1"
  by (subst expo.simps) simp

lemma expo_double: "0 < x \<Longrightarrow> x < 1 \<Longrightarrow> expo x = expo (x * 2) - 1"
  by (subst expo.simps) simp


text \<open>Rounding to the nearest integer, ties to even.\<close>

lemma rhe_cases: "rhe x = \<lfloor>x\<rfloor> \<or> rhe x = \<lfloor>x\<rfloor> + 1"
  by (simp add: rhe_def Let_def)

lemma rhe_of_int: "rhe (of_int n) = n"
  by (simp add: rhe_def)

lemma rhe_mono:
  assumes "x \<le> y"
  shows "rhe x \<le> rhe y"
proof (cases "\<lfloor>x\<rfloor> < \<lfloor>y\<rfloor>")
  case True
  then show ?thesis
    using rhe_cases [of x] rhe_cases [of y] by linarith
next
  case False
  with assms have eq: "\<lfloor>x\<rfloor> = \<lfloor>y\<rfloor>"
    using floor_mono [of x y] by linarith
  define f where "f = \<lfloor>y\<rfloor>"
  have d: "x - of_int f \<le> y - of_int f"
    using assms by simp
  have rx: "rhe x = (if x - of_int f < 1 / 2 then f else if 1 / 2 < x - of_int f then f + 1
                     else if even f then f else f + 1)"
    by (simp add: rhe_def Let_def eq f_def)
  have ry: "rhe y = (if y - of_int f < 1 / 2 then f else if 1 / 2 < y - of_int f then f + 1
                     else if even f then f else f + 1)"
    by (simp add: rhe_def Let_def f_def)
  show ?thesis
    unfolding rx ry using d by (simp split: if_splits)
qed

lemma rhe_ge: "of_int n \<le> x \<Longrightarrow> n \<le> rhe x"
  using rhe_mono [of "of_int n" x] by (simp add: rhe_of_int)

lemma rhe_le: "x \<le> of_int n \<Longrightarrow> rhe x \<le> n"
  using rhe_mono [of x "of_int n"] by (simp add: rhe_of_int)

text \<open>Rounding to double precision is monotone.\<close>

lemma binade_mono: "0 < x \<Longrightarrow> x \<le> y \<Longrightarrow> binade x \<le> binade y"
  using expo_mono [of x y] by (simp add: binade_def)

lemma rnd_pos_nonneg:
  assumes "0 < x"
  shows "0 \<le> rnd_pos x"
proof -
  have "0 \<le> x / pow2 (binade x)"
    using assms pow2_pos [of "binade x"] by simp
  then have "0 \<le> rhe (x / pow2 (binade x))"
    using rhe_ge [of 0] by simp
  then show ?thesis
    using pow2_pos [of "binade x"] by (simp add: rnd_pos_def)
qed

lemma rnd_pos_upper:
  assumes "0 < x"
  shows "rnd_pos x \<le> pow2 (binade x + 53)"
proof -
  let ?u = "pow2 (binade x)"
  have u: "0 < ?u" by (rule pow2_pos)
  have "expo x + 1 \<le> binade x + 53"
    by (simp add: binade_def)
  then have "pow2 (expo x + 1) \<le> pow2 (binade x + 53)"
    by (rule pow2_mono)
  with expo_bounds [OF assms] have "x \<le> pow2 53 * ?u"
    by (simp add: pow2_add mult.commute)
  then have "x / ?u \<le> of_int (2 ^ 53)"
    using u by (simp add: pow2_53 pos_divide_le_eq)
  then have "rhe (x / ?u) \<le> 2 ^ 53"
    by (rule rhe_le)
  then have "real_of_int (rhe (x / ?u)) \<le> real_of_int (2 ^ 53)"
    by (simp only: of_int_le_iff)
  then have "real_of_int (rhe (x / ?u)) * ?u \<le> real_of_int (2 ^ 53) * ?u"
    using u by (simp only: mult_le_cancel_right_pos)
  then show ?thesis
    by (simp add: rnd_pos_def pow2_add pow2_53 mult.commute)
qed

lemma rnd_pos_lower:
  assumes "0 < x" and "- 1022 \<le> expo x"
  shows "pow2 (binade x + 52) \<le> rnd_pos x"
proof -
  let ?u = "pow2 (binade x)"
  have u: "0 < ?u" by (rule pow2_pos)
  have b: "binade x + 52 = expo x"
    using assms(2) by (simp add: binade_def)
  with expo_bounds [OF assms(1)] have "pow2 52 * ?u \<le> x"
    by (simp add: pow2_add [symmetric] add.commute)
  then have "of_int (2 ^ 52) \<le> x / ?u"
    using u by (simp add: pow2_52 pos_le_divide_eq)
  then have "2 ^ 52 \<le> rhe (x / ?u)"
    by (rule rhe_ge)
  then have "real_of_int (2 ^ 52) \<le> real_of_int (rhe (x / ?u))"
    by (simp only: of_int_le_iff)
  then have "real_of_int (2 ^ 52) * ?u \<le> real_of_int (rhe (x / ?u)) * ?u"
    using u by (simp only: mult_le_cancel_right_pos)
  then show ?thesis
    by (simp add: rnd_pos_def pow2_add pow2_52 mult.commute)
qed

lemma rnd_pos_mono:
  assumes "0 < x" and "x \<le> y"
  shows "rnd_pos x \<le> rnd_pos y"
proof (cases "binade x = binade y")
  case True
  let ?u = "pow2 (binade y)"
  have u: "0 < ?u" by (rule pow2_pos)
  have "x / ?u \<le> y / ?u"
    using assms(2) u by (simp add: divide_right_mono)
  then have "rhe (x / ?u) \<le> rhe (y / ?u)"
    by (rule rhe_mono)
  then have "real_of_int (rhe (x / ?u)) * ?u \<le> real_of_int (rhe (y / ?u)) * ?u"
    using u by simp
  then show ?thesis
    by (simp add: rnd_pos_def True)
next
  case False
  with binade_mono [OF assms] have lt: "binade x < binade y"
    by simp
  have y: "0 < y"
    using assms by linarith
  have "- 1022 \<le> expo y"
    using lt by (simp add: binade_def max_def split: if_splits)
  from rnd_pos_lower [OF y this] have l: "pow2 (binade y + 52) \<le> rnd_pos y" .
  have "binade x + 53 \<le> binade y + 52"
    using lt by simp
  then have "pow2 (binade x + 53) \<le> pow2 (binade y + 52)"
    by (rule pow2_mono)
  with rnd_pos_upper [OF assms(1)] l show ?thesis
    by linarith
qed

lemma rnd_mono:
  assumes "x \<le> y"
  shows "rnd x \<le> rnd y"
proof -
  consider "0 < x" | "x = 0" | "x < 0" "y < 0" | "x < 0" "0 \<le> y"
    by linarith
  then show ?thesis
  proof cases
    case 1
    then show ?thesis
      using assms rnd_pos_mono [of x y] by (simp add: rnd_def)
  next
    case 2
    then show ?thesis
      using assms rnd_pos_nonneg [of y] by (simp add: rnd_def)
  next
    case 3
    then show ?thesis
      using assms rnd_pos_mono [of "- y" "- x"] by (simp add: rnd_def)
  next
    case 4
    then have "rnd x \<le> 0"
      using rnd_pos_nonneg [of "- x"] by (simp add: rnd_def)
    moreover have "0 \<le> rnd y"
      using 4 rnd_pos_nonneg [of y] by (cases "y = 0") (simp_all add: rnd_def)
    ultimately show ?thesis
      by linarith
  qed
qed

lemmas rnd_eval =
  fadd_def fmul_def fdiv_def rnd_def rnd_pos_def binade_def pow2_def rhe_def Let_def
  expo_base expo_halve expo_double

lemma rnd_0: "rnd 0 = 0"
  by (simp add: rnd_def)

lemma rnd_1: "rnd 1 = 1"
  by (simp add: rnd_eval)

lemma rnd_unit: "0 \<le> x \<Longrightarrow> x \<le> 1 \<Longrightarrow> 0 \<le> rnd x \<and> rnd x \<le> 1"
  using rnd_mono [of 0 x] rnd_mono [of x 1] by (simp add: rnd_0 rnd_1)

lemma rnd_weight_nonneg: "0 \<le> x \<Longrightarrow> 0 \<le> rnd x"
  using rnd_mono [of 0 x] by (simp add: rnd_0)

lemma fmul_mono: "0 \<le> w \<Longrightarrow> x \<le> y \<Longrightarrow> fmul w x \<le> fmul w y"
  unfolding fmul_def by (intro rnd_mono mult_left_mono)

lemma fadd_mono: "a \<le> a' \<Longrightarrow> b \<le> b' \<Longrightarrow> fadd a b \<le> fadd a' b'"
  unfolding fadd_def by (intro rnd_mono add_mono)

lemma fmul_nonneg: "0 \<le> w \<Longrightarrow> 0 \<le> x \<Longrightarrow> 0 \<le> fmul w x"
  unfolding fmul_def by (intro rnd_weight_nonneg mult_nonneg_nonneg)

lemma fadd_nonneg: "0 \<le> a \<Longrightarrow> 0 \<le> b \<Longrightarrow> 0 \<le> fadd a b"
  unfolding fadd_def by (intro rnd_weight_nonneg add_nonneg_nonneg)

lemma blend_ones:
  "fadd (fadd (fadd (fadd (fadd (fmul (rnd 0.40) 1) (fmul (rnd 0.20) 1)) (fmul (rnd 0.15) 1))
     (fmul (rnd 0.15) 1)) (fmul (rnd 0.05) 1)) (fmul (rnd 0.05) 1)
   = 4503599627370497 / 4503599627370496"
  by (simp add: rnd_eval)

subsection \<open>Ranges of the signals\<close>

lemma card_ratio_range:
  "0 \<le> real (card (a \<inter> b)) / real (card (a \<union> b)) \<and>
   real (card (a \<inter> b)) / real (card (a \<union> b)) \<le> 1"
proof (cases "finite (a \<union> b)")
  case True
  have "a \<inter> b \<subseteq> a \<union> b" by blast
  with True have "card (a \<inter> b) \<le> card (a \<union> b)"
    by (rule card_mono)
  then have "real (card (a \<inter> b)) \<le> real (card (a \<union> b))"
    by (rule of_nat_mono)
  then have "real (card (a \<inter> b)) / real (card (a \<union> b)) \<le> 1"
    by (cases "card (a \<union> b) = 0") (simp_all add: field_simps)
  then show ?thesis by simp
next
  case False
  then have "card (a \<union> b) = 0" by (rule card.infinite)
  then show ?thesis by simp
qed

lemma jaccard_range: "0 \<le> jaccard a b \<and> jaccard a b \<le> 1"
  unfolding jaccard_def Let_def using card_ratio_range [of a b] by (simp only: split: if_split) simp

lemma blend_range:
  assumes "0 \<le> f \<and> f \<le> 1" "0 \<le> s \<and> s \<le> 1" "0 \<le> a \<and> a \<le> 1"
    "0 \<le> r \<and> r \<le> 1" "0 \<le> l \<and> l \<le> 1" "0 \<le> m \<and> m \<le> 1"
  shows "0 \<le> fadd (fadd (fadd (fadd (fadd (fmul (rnd 0.40) f) (fmul (rnd 0.20) s))
           (fmul (rnd 0.15) a)) (fmul (rnd 0.15) r)) (fmul (rnd 0.05) l)) (fmul (rnd 0.05) m)"
    and "fadd (fadd (fadd (fadd (fadd (fmul (rnd 0.40) f) (fmul (rnd 0.20) s))
           (fmul (rnd 0.15) a)) (fmul (rnd 0.15) r)) (fmul (rnd 0.05) l)) (fmul (rnd 0.05) m)
         \<le> 4503599627370497 / 4503599627370496"
proof -
  have w: "0 \<le> rnd 0.40" "0 \<le> rnd 0.20" "0 \<le> rnd 0.15" "0 \<le> rnd 0.05"
    by (simp_all add: rnd_weight_nonneg)
  show "0 \<le> fadd (fadd (fadd (fadd (fadd (fmul (rnd 0.40) f) (fmul (rnd 0.20) s))
           (fmul (rnd 0.15) a)) (fmul (rnd 0.15) r)) (fmul (rnd 0.05) l)) (fmul (rnd 0.05) m)"
    using assms w by (intro fadd_nonneg fmul_nonneg) simp_all
  have "fadd (fadd (fadd (fadd (fadd (fmul (rnd 0.40) f) (fmul (rnd 0.20) s))
           (fmul (rnd 0.15) a)) (fmul (rnd 0.15) r)) (fmul (rnd 0.05) l)) (fmul (rnd 0.05) m)
        \<le> fadd (fadd (fadd (fadd (fadd (fmul (rnd 0.40) 1) (fmul (rnd 0.20) 1))
           (fmul (rnd 0.15) 1)) (fmul (rnd 0.15) 1)) (fmul (rnd 0.05) 1)) (fmul (rnd 0.05) 1)"
    using assms w by (intro fadd_mono fmul_mono) simp_all
  then show "fadd (fadd (fadd (fadd (fadd (fmul (rnd 0.40) f) (fmul (rnd 0.20) s))
           (fmul (rnd 0.15) a)) (fmul (rnd 0.15) r)) (fmul (rnd 0.05) l)) (fmul (rnd 0.05) m)
         \<le> 4503599627370497 / 4503599627370496"
    by (simp only: blend_ones)
qed

lemma clamp01_range: "0 \<le> clamp01 x \<and> clamp01 x \<le> 1"
  by (simp add: clamp01_def split: option.split)

lemma saved_genres_union_empty: "saved_ids u = {} \<Longrightarrow> saved_genres_union u catalog = {}"
  by (simp add: saved_genres_union_def saved_books_list_def)

subsection \<open>Candidates\<close>

lemma candidates_no_saved: "b \<in> set (candidates u catalog) \<Longrightarrow> book_id b \<notin> saved_ids u"
  by (simp add: candidates_def objects_exclude_def)

lemma length_candidates:
  "length (candidates u catalog) = length catalog - length (objects_filter catalog (saved_ids u))"
  using sum_length_filter_compl [of "\<lambda>b. book_id b \<in> saved_ids u" catalog]
  by (simp add: candidates_def objects_exclude_def objects_filter_def comp_def)

lemma distinct_ids_candidates:
  "distinct (map book_id catalog) \<Longrightarrow> distinct (map book_id (candidates u catalog))"
  by (simp add: candidates_def objects_exclude_def distinct_map_filter)

lemma distinct_ids_take:
  assumes "distinct (map book_id catalog)" and "mset ys = mset (candidates u catalog)"
  shows "distinct (map book_id (take n ys))"
proof -
  have "mset (map book_id ys) = mset (map book_id (candidates u catalog))"
    using assms(2) by (metis mset_map)
  then have "distinct (map book_id ys)"
    using distinct_ids_candidates [OF assms(1), of u] by (metis mset_eq_imp_distinct_iff)
  then have "distinct (take n (map book_id ys))"
    by (rule distinct_take)
  then show ?thesis
    by (simp add: take_map)
qed

subsection \<open>The fallback order\<close>

lemma rating_liked_desc_key: "rating_liked_desc a b = (fallback_key b \<le> fallback_key a)"
  by (auto simp: rating_liked_desc_def fallback_key_def less_eq_prod_def)

lemma sorted_desc_unique:
  assumes "mset ys = mset xs"
    and "sorted_wrt (\<lambda>a b. k b \<le> k a) ys"
    and "\<And>v. filter (\<lambda>x. k x = v) ys = filter (\<lambda>x. k x = v) xs"
  shows "ys = sorted_desc k xs"
proof -
  have "sort_key k (rev xs) = rev ys"
  proof (rule properties_for_sort_key)
    show "mset (rev ys) = mset (rev xs)"
      using assms(1) by simp
    show "filter (\<lambda>x. k z = k x) (rev ys) = filter (\<lambda>x. k z = k x) (rev xs)" for z
      using assms(3) [of "k z"] by (simp add: rev_filter [symmetric] eq_commute [of "k z"])
    show "sorted (map k (rev ys))"
      using assms(2) by (simp add: sorted_map sorted_wrt_rev)
  qed
  then show ?thesis
    by (simp add: sorted_desc_def)
qed

lemma exclude_nothing: "objects_exclude catalog {} = catalog"
  by (simp add: objects_exclude_def)

subsection \<open>Evaluation of the example data\<close>

lemmas exact_defs =
  fav_genre_sim_def saved_genre_sim_def author_match_def rating_norm_def liked_norm_def
  lang_match_def jaccard_def clamp01_def or_zero_def or_empty_def user_language_def lower_def
  strip_def lower_char_def is_space_def saved_genres_union_def saved_books_list_def
  saved_ids_def saved_authors_def objects_filter_def card_insert_if

lemmas book_defs = scenario_book1_def scenario_book2_def scenario_book3_def

lemmas sort_defs =
  sort_scored_def has_clash_def key_clash_def scored_key_def sorted_desc_def total_key_def
  fallback_key_def or_zero_def

lemmas limit_defs =
  effective_limit_def requested_limit_def py_int_def c_strip_def is_c_space_def is_digit_def Let_def

text \<open>The doubles that the examples meet.\<close>

lemma double_values:
  "rnd 0 = 0"
  "rnd 1 = 1"
  "rnd (1 / 2) = 1 / 2"
  "fdiv 0 5 = 0"
  "fdiv 3 5 = 5404319552844595 / 9007199254740992"
  "fdiv 4 5 = 3602879701896397 / 4503599627370496"
  "fdiv 5 5 = 1"
  "fdiv 50 100 = 1 / 2"
  "fdiv 90 100 = 8106479329266893 / 9007199254740992"
  "fdiv 95 100 = 4278419646001971 / 4503599627370496"
  "fdiv 100 100 = 1"
  by (simp_all add: rnd_eval)

lemma reader_signals1:
  "fav_genre_sim reader (scenario_book1 None) = 1"
  "saved_genre_sim reader shelf (scenario_book1 None) = 0"
  "author_match reader shelf (scenario_book1 None) = 0"
  "rating_norm (scenario_book1 None) = 3602879701896397 / 4503599627370496"
  "liked_norm (scenario_book1 None) = 8106479329266893 / 9007199254740992"
  "lang_match reader (scenario_book1 None) = 1"
  by (simp_all add: exact_defs double_values reader_def shelf_def book_defs)

lemma reader_score1:
  "score reader shelf (scenario_book1 None) = 5539427541665711 / 9007199254740992"
  unfolding score_def reader_signals1 by (simp add: rnd_eval)


lemma reader_signals3:
  "fav_genre_sim reader scenario_book3 = 1 / 2"
  "saved_genre_sim reader shelf scenario_book3 = 1 / 2"
  "author_match reader shelf scenario_book3 = 0"
  "rating_norm scenario_book3 = 5404319552844595 / 9007199254740992"
  "liked_norm scenario_book3 = 1 / 2"
  "lang_match reader scenario_book3 = 0"
  by (simp_all add: exact_defs double_values reader_def shelf_def book_defs)

lemma reader_score3: "score reader shelf scenario_book3 = 467248461339689 / 1125899906842624"
  unfolding score_def reader_signals3 by (simp add: rnd_eval)

lemma fan_signals1:
  "fav_genre_sim scenario_user (scenario_book1 a) = 1"
  "saved_genre_sim scenario_user catalog (scenario_book1 a) = 0"
  "author_match scenario_user catalog (scenario_book1 a) = 0"
  "rating_norm (scenario_book1 a) = 3602879701896397 / 4503599627370496"
  "liked_norm (scenario_book1 a) = 8106479329266893 / 9007199254740992"
  "lang_match scenario_user (scenario_book1 a) = 1"
  by (simp_all add: exact_defs double_values scenario_user_def book_defs split: option.split)

lemma fan_signals2:
  "fav_genre_sim scenario_user (scenario_book2 a) = 0"
  "saved_genre_sim scenario_user catalog (scenario_book2 a) = 0"
  "author_match scenario_user catalog (scenario_book2 a) = 0"
  "rating_norm (scenario_book2 a) = 1"
  "liked_norm (scenario_book2 a) = 4278419646001971 / 4503599627370496"
  "lang_match scenario_user (scenario_book2 a) = 1"
  by (simp_all add: exact_defs double_values scenario_user_def book_defs split: option.split)

lemma fan_signals3:
  "fav_genre_sim scenario_user scenario_book3 = 1 / 2"
  "saved_genre_sim scenario_user catalog scenario_book3 = 0"
  "author_match scenario_user catalog scenario_book3 = 0"
  "rating_norm scenario_book3 = 5404319552844595 / 9007199254740992"
  "liked_norm scenario_book3 = 1 / 2"
  "lang_match scenario_user scenario_book3 = 0"
  by (simp_all add: exact_defs double_values scenario_user_def book_defs)

lemma scenario_score1:
  "score scenario_user catalog (scenario_book1 a) = 5539427541665711 / 9007199254740992"
  unfolding score_def fan_signals1 by (simp add: rnd_eval)

lemma scenario_score2:
  "score scenario_user catalog (scenario_book2 a) = 4458563631096791 / 18014398509481984"
  unfolding score_def fan_signals2 by (simp add: rnd_eval)

lemma fan_score3:
  "score scenario_user catalog scenario_book3 = 2837267765243413 / 9007199254740992"
  unfolding score_def fan_signals3 by (simp add: rnd_eval)

lemma reader_candidates: "candidates reader shelf = [scenario_book1 None, scenario_book3]"
  by (simp add: candidates_def objects_exclude_def saved_ids_def reader_def shelf_def book_defs)

lemma reader_scored:
  "scored_list reader shelf =
     [(5539427541665711 / 9007199254740992, scenario_book1 None),
      (467248461339689 / 1125899906842624, scenario_book3)]"
  unfolding scored_list_def reader_candidates by (simp add: reader_score1 reader_score3)

lemma reader_ranked: "sort_scored (scored_list reader shelf) = Inr (scored_list reader shelf)"
  unfolding reader_scored by (simp add: sort_defs book_defs)

lemma reader_result:
  "recommended_books reader shelf None = Inr [scenario_book1 None, scenario_book3]"
  unfolding recommended_books_def Let_def reader_ranked
  unfolding reader_scored
  by (simp add: backfill_def filler_candidates_def objects_exclude_def no_signals_def
      limit_defs saved_ids_def sorted_desc_def reader_def shelf_def book_defs)

lemma fan_candidates: "candidates scenario_user catalog = catalog"
  by (simp add: candidates_def objects_exclude_def saved_ids_def scenario_user_def)

lemma fan_scored:
  "scored_list scenario_user shelf =
     [(5539427541665711 / 9007199254740992, scenario_book1 None),
      (4458563631096791 / 18014398509481984, scenario_book2 None),
      (2837267765243413 / 9007199254740992, scenario_book3)]"
  unfolding scored_list_def fan_candidates
  by (simp add: shelf_def scenario_score1 scenario_score2 fan_score3)

lemma fan_ranked:
  "sort_scored (scored_list scenario_user shelf) =
     Inr [(5539427541665711 / 9007199254740992, scenario_book1 None),
          (2837267765243413 / 9007199254740992, scenario_book3),
          (4458563631096791 / 18014398509481984, scenario_book2 None)]"
  unfolding fan_scored by (simp add: sort_defs book_defs)

lemma fan_result:
  "recommended_books scenario_user shelf (Some ''10'') =
     Inr [scenario_book1 None, scenario_book3, scenario_book2 None]"
  unfolding recommended_books_def Let_def fan_ranked
  by (simp add: backfill_def filler_candidates_def objects_exclude_def no_signals_def
      limit_defs saved_ids_def sorted_desc_def scenario_user_def shelf_def book_defs)

lemma newcomer_no_signals: "no_signals newcomer"
  by (simp add: no_signals_def saved_ids_def newcomer_def)

lemma newcomer_result:
  "recommended_books newcomer shelf (Some ''2'') = Inr [scenario_book2 None, scenario_book1 None]"
  unfolding recommended_books_def Let_def
  by (simp only: newcomer_no_signals if_True)
     (simp add: objects_exclude_def saved_ids_def newcomer_def limit_defs sorted_desc_def
        fallback_key_def or_zero_def shelf_def book_defs)

lemma scenario_scored:
  "scored_list scenario_user [scenario_book1 a, scenario_book2 a'] =
     [(5539427541665711 / 9007199254740992, scenario_book1 a),
      (4458563631096791 / 18014398509481984, scenario_book2 a')]"
  unfolding scored_list_def fan_candidates by (simp add: scenario_score1 scenario_score2)

lemma scenario_ranked:
  "sort_scored (scored_list scenario_user [scenario_book1 a, scenario_book2 a']) =
     Inr (scored_list scenario_user [scenario_book1 a, scenario_book2 a'])"
  unfolding scenario_scored by (simp add: sort_defs book_defs)

lemma scenario_result:
  "recommended_books scenario_user [scenario_book1 a, scenario_book2 a'] None =
     Inr [scenario_book1 a, scenario_book2 a']"
  unfolding recommended_books_def Let_def scenario_ranked
  unfolding scenario_scored
  by (simp add: backfill_def filler_candidates_def objects_exclude_def no_signals_def
      limit_defs saved_ids_def sorted_desc_def scenario_user_def book_defs)

lemma shelf_ids: "map book_id shelf = [1, 2, 3]"
  by (simp add: shelf_def book_defs)

lemma reader_saved: "saved_ids reader = {2}"
  by (simp add: saved_ids_def reader_def)

lemma reader_rated: "rated (candidates reader shelf)"
  by (simp add: reader_candidates rated_def book_defs)

lemma fan_rated: "rated (candidates scenario_user shelf)"
  unfolding fan_candidates by (simp add: rated_def shelf_def book_defs)

text \<open>
  The error branch is reachable only through a null rating: an unrated book and a book
  rated 0 get the same score, and the tie-break of line 262 compares \<^verbatim>\<open>None\<close> with
  \<^verbatim>\<open>0.0\<close>.
\<close>

lemma null_rating_signals:
  "fav_genre_sim scenario_user unrated_book = fav_genre_sim scenario_user zero_rated_book"
  "saved_genre_sim scenario_user catalog unrated_book =
     saved_genre_sim scenario_user catalog zero_rated_book"
  "author_match scenario_user catalog unrated_book =
     author_match scenario_user catalog zero_rated_book"
  "rating_norm unrated_book = rating_norm zero_rated_book"
  "liked_norm unrated_book = liked_norm zero_rated_book"
  "lang_match scenario_user unrated_book = lang_match scenario_user zero_rated_book"
  by (simp_all add: exact_defs scenario_user_def unrated_book_def zero_rated_book_def)

lemma null_rating_scores:
  "score scenario_user [unrated_book, zero_rated_book] unrated_book =
     score scenario_user [unrated_book, zero_rated_book] zero_rated_book"
  unfolding score_def null_rating_signals by (rule refl)

lemma null_rating_tie_raises:
  "recommended_books scenario_user [unrated_book, zero_rated_book] None = Inl TypeError"
proof -
  have "has_clash (scored_list scenario_user [unrated_book, zero_rated_book])"
    unfolding scored_list_def fan_candidates
    by (simp add: has_clash_def key_clash_def scored_key_def null_rating_scores)
       (simp add: unrated_book_def zero_rated_book_def)
  then have "sort_scored (scored_list scenario_user [unrated_book, zero_rated_book]) =
               Inl TypeError"
    by (simp add: sort_scored_def)
  moreover have "\<not> no_signals scenario_user"
    by (simp add: no_signals_def scenario_user_def)
  ultimately show ?thesis
    by (simp add: recommended_books_def Let_def)
qed

lemma rnd_615: "rnd (615 / 1000) = 2769713770832855 / 4503599627370496"
  by (simp add: rnd_eval)

lemma rnd_2475: "rnd (2475 / 10000) = 4458563631096791 / 18014398509481984"
  by (simp add: rnd_eval)

lemma devotee_signals:
  "fav_genre_sim devotee perfect_book = 1"
  "saved_genre_sim devotee library perfect_book = 1"
  "author_match devotee library perfect_book = 1"
  "rating_norm perfect_book = 1"
  "liked_norm perfect_book = 1"
  "lang_match devotee perfect_book = 1"
  by (simp_all add: exact_defs double_values devotee_def perfect_book_def library_def book_defs)

lemma devotee_score: "score devotee library perfect_book = 4503599627370497 / 4503599627370496"
  unfolding score_def devotee_signals by (rule blend_ones)

lemma devotee_candidate: "perfect_book \<in> set (candidates devotee library)"
  by (simp add: candidates_def objects_exclude_def saved_ids_def devotee_def library_def
      perfect_book_def book_defs)


section \<open>The claims\<close>

text \<open>
  C1: on every path, a row that the view returns has an id outside \<open>saved_ids\<close>.
\<close>

theorem saved_books_excluded:
  assumes "recommended_books u catalog q = Inr out" and "b \<in> set out"
  shows "book_id b \<notin> saved_ids u"
proof -
  from recommended_books_shape [OF assms(1)] obtain ys
    where ys: "mset ys = mset (candidates u catalog)" and out: "out = take (nat (effective_limit q)) ys"
    by blast
  from assms(2) out have "b \<in> set ys"
    by (auto dest: in_set_takeD)
  with mset_eq_setD [OF ys] have "b \<in> set (candidates u catalog)"
    by simp
  then show ?thesis
    by (rule candidates_no_saved)
qed

theorem saved_books_excluded_witness:
  "recommended_books reader shelf None = Inr [scenario_book1 None, scenario_book3]
   \<and> scenario_book3 \<in> set [scenario_book1 None, scenario_book3]
   \<and> saved_ids reader = {2}
   \<and> book_id scenario_book3 \<notin> saved_ids reader"
proof -
  have m: "scenario_book3 \<in> set [scenario_book1 None, scenario_book3]"
    by simp
  have "book_id scenario_book3 \<notin> saved_ids reader"
    using reader_result m by (rule saved_books_excluded)
  with reader_result m reader_saved show ?thesis
    by blast
qed

text \<open>
  C2, as stated, fails: a numeric limit outside 1..24 is not replaced by the default 4 but
  clamped to the nearest bound; \<^verbatim>\<open>limit=100\<close> gives 24.
\<close>

theorem limit_coerces_to_default_counterexample:
  "py_int ''100'' = Some 100 \<and> \<not> (1 \<le> (100::int) \<and> (100::int) \<le> 24)
   \<and> effective_limit (Some ''100'') = 24 \<and> effective_limit (Some ''100'') \<noteq> 4"
  by (simp add: limit_defs)

text \<open>
  C2 (amended): the effective limit always lies in 1..24 and the view never fails on the
  parameter. A missing parameter and one that \<^verbatim>\<open>int\<close> rejects give the default 4; a
  parameter that \<^verbatim>\<open>int\<close> accepts is clamped to the nearest bound of 1..24 (and kept
  when it lies inside).
\<close>

theorem effective_limit_clamped:
  "1 \<le> effective_limit q \<and> effective_limit q \<le> 24
   \<and> effective_limit None = 4
   \<and> (py_int s = None \<longrightarrow> effective_limit (Some s) = 4)
   \<and> (py_int s' = Some n \<longrightarrow>
        effective_limit (Some s') = (if n < 1 then 1 else if 24 < n then 24 else n))"
  by (auto simp: effective_limit_def requested_limit_def)

theorem effective_limit_clamped_witness:
  "py_int ''abc'' = None \<and> effective_limit (Some ''abc'') = 4
   \<and> py_int ''0'' = Some 0 \<and> effective_limit (Some ''0'') = 1"
proof -
  have a: "py_int ''abc'' = None" and b: "py_int ''0'' = Some 0"
    by (simp_all add: py_int_def c_strip_def is_c_space_def is_digit_def Let_def)
  from a b effective_limit_clamped [of None "''abc''" "''0''" 0] show ?thesis
    by simp
qed

text \<open>
  C3, as stated, fails: line 241 adds doubles, and for book 1 of the scenario the sum is
  0.6150000000000001, which is neither the real number 0.615 nor the double nearest to it.
\<close>

theorem scenario_score_counterexample:
  "score scenario_user [scenario_book1 None, scenario_book2 None] (scenario_book1 None) =
     5539427541665711 / 9007199254740992
   \<and> score scenario_user [scenario_book1 None, scenario_book2 None] (scenario_book1 None) \<noteq> 0.615
   \<and> score scenario_user [scenario_book1 None, scenario_book2 None] (scenario_book1 None)
       \<noteq> rnd 0.615"
proof -
  have "rnd 0.615 = rnd (615 / 1000)"
    by simp
  then show ?thesis
    unfolding scenario_score1 rnd_615 by simp
qed

text \<open>
  C3 (amended): in the scenario of the specification (favourite genre Fantasy, nothing
  saved, preferred language English, the two books 1 and 2, whatever their authors) the
  score of book 1 is the double 0.6150000000000001, one unit in the last place above the
  double nearest to 0.615; the score of book 2 is the double nearest to 0.2475; and the
  view, called without a limit, returns book 1 and then book 2.
\<close>

theorem concrete_scenario_doubles:
  "score scenario_user [scenario_book1 a, scenario_book2 a'] (scenario_book1 a) =
     rnd 0.615 + 1 / 2 ^ 53
   \<and> score scenario_user [scenario_book1 a, scenario_book2 a'] (scenario_book2 a') = rnd 0.2475
   \<and> recommended_books scenario_user [scenario_book1 a, scenario_book2 a'] None =
       Inr [scenario_book1 a, scenario_book2 a']
   \<and> map book_id [scenario_book1 a, scenario_book2 a'] = [1, 2]"
proof -
  have a: "rnd 0.615 = rnd (615 / 1000)" and b: "rnd 0.2475 = rnd (2475 / 10000)"
    by simp_all
  have "score scenario_user [scenario_book1 a, scenario_book2 a'] (scenario_book1 a) =
          rnd 0.615 + 1 / 2 ^ 53"
    unfolding scenario_score1 a rnd_615 by simp
  moreover have "score scenario_user [scenario_book1 a, scenario_book2 a'] (scenario_book2 a') =
          rnd 0.2475"
    unfolding scenario_score2 b rnd_2475 by simp
  moreover have "map book_id [scenario_book1 a, scenario_book2 a'] = [1, 2]"
    by (simp add: book_defs)
  ultimately show ?thesis
    using scenario_result [of a a'] by simp
qed

text \<open>
  C4: for a user without favourite genres and without saved ids the view returns the
  first \<open>limit\<close> rows of the catalogue sorted by (rating, liked percentage) descending:
  a permutation of the catalogue, in descending order, rows of equal key in catalogue
  order. By \<open>sorted_desc_unique\<close> these three properties determine the list, so the
  order is the same on every call.
\<close>

theorem cold_start_order:
  assumes "no_signals u"
  shows "recommended_books u catalog q =
           Inr (take (nat (effective_limit q)) (sorted_desc fallback_key catalog))
         \<and> mset (sorted_desc fallback_key catalog) = mset catalog
         \<and> sorted_wrt rating_liked_desc (sorted_desc fallback_key catalog)
         \<and> (\<forall>k. filter (\<lambda>b. fallback_key b = k) (sorted_desc fallback_key catalog) =
                  filter (\<lambda>b. fallback_key b = k) catalog)"
proof -
  from assms have s: "saved_ids u = {}"
    by (simp add: no_signals_def)
  have "recommended_books u catalog q =
          Inr (take (nat (effective_limit q)) (sorted_desc fallback_key catalog))"
    using assms by (simp add: recommended_books_def Let_def s exclude_nothing)
  moreover have "sorted_wrt rating_liked_desc (sorted_desc fallback_key catalog)"
    using sorted_wrt_sorted_desc [of fallback_key catalog]
    by (simp add: rating_liked_desc_key [abs_def])
  ultimately show ?thesis
    by (simp add: mset_sorted_desc stable_sorted_desc)
qed

theorem cold_start_order_witness:
  "no_signals newcomer
   \<and> recommended_books newcomer shelf (Some ''2'') = Inr [scenario_book2 None, scenario_book1 None]
   \<and> take (nat (effective_limit (Some ''2''))) (sorted_desc fallback_key shelf) =
       [scenario_book2 None, scenario_book1 None]
   \<and> sorted_wrt rating_liked_desc (sorted_desc fallback_key shelf)"
proof -
  from cold_start_order [OF newcomer_no_signals, of shelf "Some ''2''"]
  have "recommended_books newcomer shelf (Some ''2'') =
          Inr (take (nat (effective_limit (Some ''2''))) (sorted_desc fallback_key shelf))"
    and "sorted_wrt rating_liked_desc (sorted_desc fallback_key shelf)"
    by simp_all
  with newcomer_no_signals newcomer_result show ?thesis
    by simp
qed

text \<open>
  C5: the output is at most as long as the clamped limit and at most as long as the list
  of catalogue rows whose id is not saved. When every candidate has a rating the view
  returns, and the length of its output is the smaller of the two: a catalogue smaller
  than the limit gives a shorter result, not an error.
\<close>

theorem limit_bound:
  "(recommended_books u catalog q = Inr out \<longrightarrow>
      int (length out) \<le> max 1 (min (requested_limit q) 24)
      \<and> length out \<le> length (objects_exclude catalog (saved_ids u))
      \<and> length out \<le> length catalog - length (objects_filter catalog (saved_ids u)))
   \<and> (rated (candidates u catalog) \<longrightarrow>
        (\<exists>ys. recommended_books u catalog q = Inr ys
              \<and> length ys = min (nat (effective_limit q)) (length (candidates u catalog))))"
proof (intro conjI impI)
  assume r: "recommended_books u catalog q = Inr out"
  from recommended_books_shape [OF r] obtain ys
    where ys: "mset ys = mset (candidates u catalog)" and out: "out = take (nat (effective_limit q)) ys"
    by blast
  have len: "length ys = length (candidates u catalog)"
    using ys by (rule mset_eq_length)
  have "length out \<le> nat (effective_limit q)"
    using out by simp
  then have "int (length out) \<le> effective_limit q"
    using effective_limit_range [of q] by linarith
  then show "int (length out) \<le> max 1 (min (requested_limit q) 24)"
    by (simp only: effective_limit_def)
  show c: "length out \<le> length (objects_exclude catalog (saved_ids u))"
    using out len by (simp add: candidates_def)
  show "length out \<le> length catalog - length (objects_filter catalog (saved_ids u))"
    using c by (simp add: length_candidates [symmetric] candidates_def)
next
  assume "rated (candidates u catalog)"
  from rated_returns [OF this, of q] obtain ys
    where ys: "mset ys = mset (candidates u catalog)"
      and r: "recommended_books u catalog q = Inr (take (nat (effective_limit q)) ys)"
    by blast
  have "length ys = length (candidates u catalog)"
    using ys by (rule mset_eq_length)
  then have "length (take (nat (effective_limit q)) ys) =
               min (nat (effective_limit q)) (length (candidates u catalog))"
    by simp
  with r show "\<exists>ys. recommended_books u catalog q = Inr ys
              \<and> length ys = min (nat (effective_limit q)) (length (candidates u catalog))"
    by blast
qed

theorem limit_bound_witness:
  "recommended_books reader shelf None = Inr [scenario_book1 None, scenario_book3]
   \<and> rated (candidates reader shelf)
   \<and> int (length [scenario_book1 None, scenario_book3]) \<le> max 1 (min (requested_limit None) 24)
   \<and> length [scenario_book1 None, scenario_book3] \<le> length (objects_exclude shelf (saved_ids reader))
   \<and> length [scenario_book1 None, scenario_book3]
       \<le> length shelf - length (objects_filter shelf (saved_ids reader))
   \<and> (\<exists>ys. recommended_books reader shelf None = Inr ys
          \<and> length ys = min (nat (effective_limit None)) (length (candidates reader shelf)))"
  using limit_bound [of reader shelf None "[scenario_book1 None, scenario_book3]"]
    reader_result reader_rated
  by blast

text \<open>
  C6: with exactly three candidates (catalogue rows whose id is not saved), each with a
  rating, and a requested limit of 10, the view returns exactly those three rows, each
  once: no padding, no row twice, no error, and no id twice when the catalogue has
  distinct ids.
\<close>

theorem backfill_completeness:
  assumes "length (candidates u catalog) = 3" and "requested_limit q = 10"
    and "rated (candidates u catalog)"
  shows "\<exists>out. recommended_books u catalog q = Inr out
           \<and> length out = 3
           \<and> mset out = mset (candidates u catalog)
           \<and> (distinct (map book_id catalog) \<longrightarrow> distinct (map book_id out))"
proof -
  have lim: "nat (effective_limit q) = 10"
    using assms(2) by (simp add: effective_limit_def)
  from rated_returns [OF assms(3), of q] obtain ys
    where ys: "mset ys = mset (candidates u catalog)"
      and r: "recommended_books u catalog q = Inr (take (nat (effective_limit q)) ys)"
    by blast
  have len: "length ys = 3"
    using mset_eq_length [OF ys] assms(1) by simp
  then have t: "take (nat (effective_limit q)) ys = ys"
    by (simp add: lim)
  have "distinct (map book_id catalog) \<longrightarrow> distinct (map book_id ys)"
    using distinct_ids_take [of catalog ys u "length ys"] ys by simp
  with r t len ys show ?thesis
    by simp
qed

theorem backfill_completeness_witness:
  "length (candidates scenario_user shelf) = 3
   \<and> requested_limit (Some ''10'') = 10
   \<and> rated (candidates scenario_user shelf)
   \<and> distinct (map book_id shelf)
   \<and> (\<exists>out. recommended_books scenario_user shelf (Some ''10'') = Inr out
           \<and> length out = 3
           \<and> mset out = mset (candidates scenario_user shelf)
           \<and> distinct (map book_id out))"
proof -
  have a: "length (candidates scenario_user shelf) = 3"
    unfolding fan_candidates by (simp add: shelf_def)
  have b: "requested_limit (Some ''10'') = 10"
    by (simp add: limit_defs)
  have d: "distinct (map book_id shelf)"
    by (simp add: shelf_ids)
  from backfill_completeness [OF a b fan_rated] a b d fan_rated show ?thesis
    by blast
qed

text \<open>
  C7: \<^verbatim>\<open>jaccard\<close> returns 0 on two empty sets and the quotient of the cardinalities
  of intersection and union on every other pair; \<open>fav_genre_sim\<close> is 0 for a user
  without favourite genres and \<open>saved_genre_sim\<close> is 0 for a user without saved books.
\<close>

theorem jaccard_edge_case:
  "jaccard {} {} = 0
   \<and> (a \<noteq> {} \<or> b \<noteq> {} \<longrightarrow> jaccard a b = real (card (a \<inter> b)) / real (card (a \<union> b)))
   \<and> (set (favorite_genres u) = {} \<longrightarrow> fav_genre_sim u bk = 0)
   \<and> (saved_ids u = {} \<longrightarrow> saved_genre_sim u catalog bk = 0)"
  by (auto simp: jaccard_def Let_def fav_genre_sim_def saved_genre_sim_def saved_genres_union_empty)

theorem jaccard_edge_case_witness:
  "jaccard {''Fantasy''} {''Fantasy'', ''Romance''} = 1 / 2
   \<and> set (favorite_genres newcomer) = {}
   \<and> fav_genre_sim newcomer scenario_book3 = 0
   \<and> saved_ids newcomer = {}
   \<and> saved_genre_sim newcomer shelf scenario_book3 = 0"
proof -
  have f: "set (favorite_genres newcomer) = {}" and s: "saved_ids newcomer = {}"
    by (simp_all add: newcomer_def saved_ids_def)
  have n: "{''Fantasy''} \<noteq> {} \<or> {''Fantasy'', ''Romance''} \<noteq> ({} :: string set)"
    by simp
  from jaccard_edge_case [of "{''Fantasy''}" "{''Fantasy'', ''Romance''}" newcomer scenario_book3 shelf]
  have "jaccard {''Fantasy''} {''Fantasy'', ''Romance''} =
          real (card ({''Fantasy''} \<inter> {''Fantasy'', ''Romance''}))
          / real (card ({''Fantasy''} \<union> {''Fantasy'', ''Romance''}))"
    and "fav_genre_sim newcomer scenario_book3 = 0"
    and "saved_genre_sim newcomer shelf scenario_book3 = 0"
    using f s n by blast+
  then show ?thesis
    using f s by (simp add: card_insert_if)
qed

text \<open>
  C8: the filler never adds a row. Whenever fewer than \<open>limit\<close> rows are selected from
  the ranked list, the filler candidates are empty; the view equals the view without
  lines 265 to 274.
\<close>

theorem backfill_adds_nothing:
  "recommended_books u catalog q = recommended_books_no_backfill u catalog q
   \<and> (sort_scored (scored_list u catalog) = Inr ranked
        \<and> length (map snd (take limit ranked)) < limit
      \<longrightarrow> filler_candidates u catalog (map snd (take limit ranked)) = [])"
proof (intro conjI impI)
  show "recommended_books u catalog q = recommended_books_no_backfill u catalog q"
    by (simp add: recommended_books_unfold recommended_books_no_backfill_def Let_def
        candidates_def take_map split: sum.split)
next
  assume a: "sort_scored (scored_list u catalog) = Inr ranked
        \<and> length (map snd (take limit ranked)) < limit"
  then have "length (take limit (map snd ranked)) < limit"
    by (simp add: take_map)
  from filler_empty [OF ranked_candidates this] a
  show "filler_candidates u catalog (map snd (take limit ranked)) = []"
    by (simp add: take_map)
qed

theorem backfill_adds_nothing_witness:
  "sort_scored (scored_list reader shelf) = Inr (scored_list reader shelf)
   \<and> length (map snd (take 4 (scored_list reader shelf))) < 4
   \<and> filler_candidates reader shelf (map snd (take 4 (scored_list reader shelf))) = []
   \<and> recommended_books reader shelf None = recommended_books_no_backfill reader shelf None"
proof -
  have l: "length (map snd (take 4 (scored_list reader shelf))) < 4"
    by (simp add: reader_scored)
  from backfill_adds_nothing [of reader shelf None "scored_list reader shelf" 4] reader_ranked l
  show ?thesis
    by blast
qed

text \<open>
  C9: on a catalogue with distinct ids the output has no id twice.
\<close>

theorem output_ids_distinct:
  assumes "distinct (map book_id catalog)" and "recommended_books u catalog q = Inr out"
  shows "distinct (map book_id out)"
proof -
  from recommended_books_shape [OF assms(2)] obtain ys
    where ys: "mset ys = mset (candidates u catalog)" and out: "out = take (nat (effective_limit q)) ys"
    by blast
  show ?thesis
    unfolding out using assms(1) ys by (rule distinct_ids_take)
qed

theorem output_ids_distinct_witness:
  "distinct (map book_id shelf)
   \<and> recommended_books reader shelf None = Inr [scenario_book1 None, scenario_book3]
   \<and> distinct (map book_id [scenario_book1 None, scenario_book3])"
proof -
  have d: "distinct (map book_id shelf)"
    by (simp add: shelf_ids)
  from output_ids_distinct [OF d reader_result] d reader_result show ?thesis
    by blast
qed

text \<open>
  C10, as stated, fails in its last part: the six signals lie between 0 and 1, but the
  blended score is a sum of doubles and exceeds 1 when all six signals are 1.
\<close>

theorem score_above_one_counterexample:
  "perfect_book \<in> set (candidates devotee library)
   \<and> fav_genre_sim devotee perfect_book = 1
   \<and> saved_genre_sim devotee library perfect_book = 1
   \<and> author_match devotee library perfect_book = 1
   \<and> rating_norm perfect_book = 1
   \<and> liked_norm perfect_book = 1
   \<and> lang_match devotee perfect_book = 1
   \<and> score devotee library perfect_book = 1 + 1 / 2 ^ 52
   \<and> 1 < score devotee library perfect_book"
  by (simp add: devotee_candidate devotee_signals devotee_score)

text \<open>
  C10 (amended): each of the six signals lies in the interval from 0 to 1, whatever the
  rating and the liked percentage are (null, negative or above the nominal range); the
  blended score is at least 0 and at most 1.0000000000000002, that is 1 plus one unit in
  the last place.
\<close>

theorem sub_scores_unit_interval:
  "0 \<le> fav_genre_sim u b \<and> fav_genre_sim u b \<le> 1
   \<and> 0 \<le> saved_genre_sim u catalog b \<and> saved_genre_sim u catalog b \<le> 1
   \<and> 0 \<le> author_match u catalog b \<and> author_match u catalog b \<le> 1
   \<and> 0 \<le> rating_norm b \<and> rating_norm b \<le> 1
   \<and> 0 \<le> liked_norm b \<and> liked_norm b \<le> 1
   \<and> 0 \<le> lang_match u b \<and> lang_match u b \<le> 1
   \<and> 0 \<le> score u catalog b \<and> score u catalog b \<le> 1 + 1 / 2 ^ 52"
proof -
  have j: "0 \<le> rnd (jaccard x y) \<and> rnd (jaccard x y) \<le> 1" for x y
    using jaccard_range [of x y] by (simp add: rnd_unit)
  have f: "0 \<le> fav_genre_sim u b \<and> fav_genre_sim u b \<le> 1"
    using j by (simp add: fav_genre_sim_def)
  have s: "0 \<le> saved_genre_sim u catalog b \<and> saved_genre_sim u catalog b \<le> 1"
    using j by (simp add: saved_genre_sim_def)
  have a: "0 \<le> author_match u catalog b \<and> author_match u catalog b \<le> 1"
    by (simp add: author_match_def split: option.split)
  have r: "0 \<le> rating_norm b \<and> rating_norm b \<le> 1"
    unfolding rating_norm_def by (rule clamp01_range)
  have l: "0 \<le> liked_norm b \<and> liked_norm b \<le> 1"
    unfolding liked_norm_def by (rule clamp01_range)
  have m: "0 \<le> lang_match u b \<and> lang_match u b \<le> 1"
    by (simp add: lang_match_def)
  have lo: "0 \<le> score u catalog b"
    unfolding score_def using f s a r l m by (rule blend_range(1))
  have "score u catalog b \<le> 4503599627370497 / 4503599627370496"
    unfolding score_def using f s a r l m by (rule blend_range(2))
  then have hi: "score u catalog b \<le> 1 + 1 / 2 ^ 52"
    by simp
  from f s a r l m lo hi show ?thesis by blast
qed

end
